theory Spec2Isabelle
  imports Main
begin

section \<open>Data model\<close>

text \<open>
  A file as the interaction core sees it. The source reads \<open>file.id\<close>; the field is
  called \<open>file_id\<close> here because \<open>id\<close> is the identity function of HOL. The three
  capability attributes are the ones the capability predicates read.
\<close>

record FileData =
  file_id :: string
  selectable :: bool
  openable :: bool
  draggable :: bool

text \<open>\<open>FileArray\<close>: every element is a file or \<open>null\<close> (a loading placeholder).\<close>

type_synonym FileArray = "FileData option list"

text \<open>
  Modelled from the spec: \<open>FileHelper\<close> (util/file-helper is not among the sources).
  The capability queries are pure and total over nullable input, \<open>null\<close> giving false.
\<close>

definition isSelectable :: "FileData option \<Rightarrow> bool" where
  "isSelectable f = (case f of None \<Rightarrow> False | Some x \<Rightarrow> selectable x)"

definition isOpenable :: "FileData option \<Rightarrow> bool" where
  "isOpenable f = (case f of None \<Rightarrow> False | Some x \<Rightarrow> openable x)"

definition isDraggable :: "FileData option \<Rightarrow> bool" where
  "isDraggable f = (case f of None \<Rightarrow> False | Some x \<Rightarrow> draggable x)"

subsection \<open>The selection store\<close>

text \<open>
  Modelled from the spec: the store state behind \<open>store.getState()\<close> (redux/reducers and
  redux/selectors are not among the sources). It holds the ordered file sequence and the
  selection, a set of file identifiers.
\<close>

record RootState =
  rawFiles :: FileArray
  selection :: "string set"

datatype ReduxAction =
    ToggleSelection string bool
  | SelectRange nat nat
  | ClearSelection
  | SelectFiles "string list" bool

definition presentFiles :: "RootState \<Rightarrow> FileData list" where
  "presentFiles s = List.map_filter (\<lambda>f. f) (rawFiles s)"

text \<open>
  Modelled from the spec: the four operations of the selection store, as one reducer.
  \<open>toggle\<close> replaces the selection by the one file when exclusive and flips the file's
  membership otherwise; \<open>selectRange\<close> replaces the selection by the files whose display
  index lies between the smaller and the larger bound; \<open>setExact\<close> keeps the identifiers
  of existing selectable files and replaces or extends the selection; \<open>clear\<close> empties it.
\<close>

fun rootReducer :: "RootState \<Rightarrow> ReduxAction \<Rightarrow> RootState" where
  "rootReducer s (ToggleSelection fileId exclusive) =
     (if exclusive then s\<lparr>selection := {fileId}\<rparr>
      else if fileId \<in> selection s then s\<lparr>selection := selection s - {fileId}\<rparr>
      else s\<lparr>selection := insert fileId (selection s)\<rparr>)"
| "rootReducer s (SelectRange startIndex endIndex) =
     (let lo = min startIndex endIndex; hi = max startIndex endIndex
      in s\<lparr>selection :=
            set (map file_id (List.map_filter (\<lambda>f. f) (take (Suc hi - lo) (drop lo (rawFiles s)))))\<rparr>)"
| "rootReducer s ClearSelection = s\<lparr>selection := {}\<rparr>"
| "rootReducer s (SelectFiles fileIds reset) =
     (let valid = set (filter (\<lambda>i. \<exists>f \<in> set (presentFiles s). file_id f = i \<and> isSelectable (Some f)) fileIds)
      in if reset then s\<lparr>selection := valid\<rparr> else s\<lparr>selection := selection s \<union> valid\<rparr>)"

text \<open>Modelled from the spec: the query \<open>isSelected(file)\<close> of the selection store.\<close>

definition getIsFileSelected :: "RootState \<Rightarrow> FileData \<Rightarrow> bool" where
  "getIsFileSelected s f = (file_id f \<in> selection s)"

text \<open>
  Modelled from the spec: the query \<open>getSelectedFiles(...predicates)\<close>, the selected files
  of the sequence on which all the predicates hold.
\<close>

definition getSelectedFiles :: "RootState \<Rightarrow> (FileData option \<Rightarrow> bool) list \<Rightarrow> FileData list" where
  "getSelectedFiles s filters =
     filter (\<lambda>f. file_id f \<in> selection s \<and> (\<forall>p \<in> set filters. p (Some f))) (presentFiles s)"

subsection \<open>Object literals used as dictionaries\<close>

text \<open>
  Both maps of the sources are object literals indexed with \<open>object[key]\<close>, so a read also
  finds what the object inherits. An object literal inherits from \<open>Object.prototype\<close>, whose
  members have the names below (the ECMAScript standard with its annex for web browsers).
\<close>

definition objectPrototypeMembers :: "string list" where
  "objectPrototypeMembers =
     [''constructor'', ''__defineGetter__'', ''__defineSetter__'', ''hasOwnProperty'',
      ''__lookupGetter__'', ''__lookupSetter__'', ''isPrototypeOf'', ''propertyIsEnumerable'',
      ''toString'', ''valueOf'', ''__proto__'', ''toLocaleString'']"

text \<open>
  An object that starts as \<open>{}\<close> and is only changed by \<open>object[key] = value\<close> with values
  that are objects: its own properties, and its prototype, which is \<open>Object.prototype\<close>
  (\<open>None\<close>) until an assignment to the key \<open>__proto__\<close> replaces it by the assigned value.
\<close>

record 'v jsObject =
  own :: "string \<rightharpoonup> 'v"
  prototypeOf :: "'v option"

definition emptyObject :: "'v jsObject" where
  "emptyObject = \<lparr>own = Map.empty, prototypeOf = None\<rparr>"

text \<open>
  \<open>object[key] = value\<close>: the key \<open>__proto__\<close> reaches the setter inherited from
  \<open>Object.prototype\<close>, which replaces the prototype and creates no own property; every other
  key becomes an own property (the other inherited members are writable data properties).
\<close>

definition jsSet :: "'v jsObject \<Rightarrow> string \<Rightarrow> 'v \<Rightarrow> 'v jsObject" where
  "jsSet obj key v =
     (if key = ''__proto__'' then obj\<lparr>prototypeOf := Some v\<rparr>
      else obj\<lparr>own := (own obj)(key \<mapsto> v)\<rparr>)"

text \<open>
  What \<open>object[key]\<close> evaluates to: a value stored by an assignment, the value \<open>v[key]\<close>
  read through a prototype \<open>v\<close> that an assignment installed (kept symbolic, the properties
  of \<open>v\<close> are not modelled), a member of \<open>Object.prototype\<close>, \<open>Object.prototype\<close> itself, or
  \<open>undefined\<close>.
\<close>

datatype 'v jsProperty =
    StoredValue 'v
  | ReadThrough 'v string
  | PrototypeMember string
  | PrototypeObject
  | Undefined

definition jsGet :: "'v jsObject \<Rightarrow> string \<Rightarrow> 'v jsProperty" where
  "jsGet obj key =
     (if key = ''__proto__'' then
        (case prototypeOf obj of None \<Rightarrow> PrototypeObject | Some v \<Rightarrow> StoredValue v)
      else
        (case own obj key of
           Some v \<Rightarrow> StoredValue v
         | None \<Rightarrow>
             (case prototypeOf obj of
                Some v \<Rightarrow> ReadThrough v key
              | None \<Rightarrow>
                  if key \<in> set objectPrototypeMembers then PrototypeMember key else Undefined)))"

text \<open>\<open>Object.keys(object)\<close>, as a set: the names of the own properties.\<close>

definition jsKeys :: "'v jsObject \<Rightarrow> string set" where
  "jsKeys obj = dom (own obj)"

text \<open>
  Calling the value found under the name of a member of \<open>Object.prototype\<close> as
  \<open>handler(actionData)\<close>, that is with no receiver and an object as argument: \<open>constructor\<close>
  (the function \<open>Object\<close>) and \<open>toString\<close> return; the other functions convert the missing
  receiver to an object, which throws a \<open>TypeError\<close>; and the value under \<open>__proto__\<close> is
  \<open>Object.prototype\<close>, not a function, so calling it throws a \<open>TypeError\<close> too.
\<close>

definition objectPrototypeCall :: "string \<Rightarrow> string option" where
  "objectPrototypeCall member =
     (if member = ''constructor'' \<or> member = ''toString'' then None else Some ''TypeError'')"

subsection \<open>Semantic actions and the host callback\<close>

text \<open>
  The identifiers \<open>ChonkyActions.OpenFiles.id\<close>, \<open>ChonkyActions.DuplicateFilesTo.id\<close> and
  \<open>ChonkyActions.MoveFilesTo.id\<close> that the handlers put into the actions they synthesize.
  Modelled from the spec: util/file-actions-definitions is not among the sources, so the
  three identifiers are the constructors of a datatype (Open, Duplicate, Move).
\<close>

datatype ChonkyActionId = OpenFiles | DuplicateFilesTo | MoveFilesTo

record FileActionData =
  actionId :: ChonkyActionId
  target :: "FileData option"
  files :: FileArray

text \<open>
  The callback behind \<open>dispatchFileActionRef.current\<close>. It belongs to the host, so all the
  model keeps of it is whether a call returns (\<open>None\<close>) or throws (\<open>Some error\<close>).
\<close>

type_synonym FileActionDispatcher = "FileActionData \<Rightarrow> string option"

subsection \<open>Special actions\<close>

text \<open>
  The payloads of the special actions, with the fields the handlers read. Field names carry
  a prefix where two payloads have a field of the same name in the source (\<open>file\<close>,
  \<open>fileDisplayIndex\<close>, \<open>ctrlKey\<close>, \<open>dragSource\<close>).
\<close>

record SpecialFileMouseClickAction =
  mFile :: FileData
  mFileDisplayIndex :: nat
  mCtrlKey :: bool
  mShiftKey :: bool
  clickType :: string

record SpecialFileKeyboardClickAction =
  kFile :: FileData
  kFileDisplayIndex :: nat
  enterKey :: bool
  spaceKey :: bool
  kCtrlKey :: bool

record SpecialDragNDropStartAction =
  sDragSource :: FileData

record SpecialDragNDropEndAction =
  dragSource :: FileData
  dropTarget :: FileData
  dropEffect :: string

text \<open>
  \<open>SpecialActionData\<close> is a union discriminated by \<open>actionId\<close>. The last constructor stands
  for data whose \<open>actionId\<close> is the given string, a string that is none of the six keys of
  the handler map.
\<close>

datatype SpecialActionData =
    MouseClickFile SpecialFileMouseClickAction
  | KeyboardClickFile SpecialFileKeyboardClickAction
  | OpenParentFolder
  | OpenFolderChainFolder FileData
  | DragNDropStart SpecialDragNDropStartAction
  | DragNDropEnd SpecialDragNDropEndAction
  | UnhandledAction string

text \<open>
  \<open>Logger\<close> (util/logger is not among the sources) is kept as the list of the calls made
  to it: the level and what the message is about.
\<close>

datatype LogLevel = LevelDebug | LevelWarn | LevelError

datatype LogEntry =
    DebugRequest SpecialActionData
  | ErrorHandlerThrew SpecialActionData string
  | ErrorNoHandler SpecialActionData
  | WarnParentNotOpenable
  | DebugRequestNullish

fun logLevel :: "LogEntry \<Rightarrow> LogLevel" where
  "logLevel (DebugRequest d) = LevelDebug"
| "logLevel (ErrorHandlerThrew d e) = LevelError"
| "logLevel (ErrorNoHandler d) = LevelError"
| "logLevel WarnParentNotOpenable = LevelWarn"
| "logLevel DebugRequestNullish = LevelDebug"

subsection \<open>The state of one browser instance\<close>

text \<open>
  What the handlers of \<open>useSpecialFileActionHandlerMap\<close> read and write: the store, the
  three instance variables (\<open>lastClickDisplayIndexRef\<close>, whose \<open>null\<close> is \<open>None\<close>,
  \<open>parentFolderRef\<close> and \<open>selectionSizeRef\<close>), and three traces: the actions passed to
  \<open>dispatch\<close>, the calls made to \<open>dispatchFileActionRef.current\<close>, and the logger calls.
\<close>

record InstanceState =
  store :: RootState
  lastClickDisplayIndexRef :: "nat option"
  parentFolderRef :: "FileData option"
  selectionSizeRef :: nat
  reduxDispatched :: "ReduxAction list"
  fileActionsDispatched :: "FileActionData list"
  logger :: "LogEntry list"

text \<open>
  A call either returns or throws; a throw keeps the state as it was at that moment, since
  the mutations made before it are not undone.
\<close>

datatype outcome = Returned InstanceState | Threw string InstanceState

definition dispatch :: "ReduxAction \<Rightarrow> InstanceState \<Rightarrow> InstanceState" where
  "dispatch a st =
     st\<lparr>store := rootReducer (store st) a, reduxDispatched := reduxDispatched st @ [a]\<rparr>"

definition dispatchFileAction ::
  "FileActionDispatcher \<Rightarrow> FileActionData \<Rightarrow> InstanceState \<Rightarrow> outcome" where
  "dispatchFileAction h a st =
     (let st' = st\<lparr>fileActionsDispatched := fileActionsDispatched st @ [a]\<rparr>
      in case h a of None \<Rightarrow> Returned st' | Some e \<Rightarrow> Threw e st')"

definition logCall :: "LogEntry \<Rightarrow> InstanceState \<Rightarrow> InstanceState" where
  "logCall e st = st\<lparr>logger := logger st @ [e]\<rparr>"

section \<open>The handlers of the special actions\<close>

definition mouseClickFileHandler ::
  "FileActionDispatcher \<Rightarrow> SpecialFileMouseClickAction \<Rightarrow> InstanceState \<Rightarrow> outcome" where
  "mouseClickFileHandler h data st =
     (if clickType data = ''double'' then
        (if isOpenable (Some (mFile data)) then
           dispatchFileAction h
             \<lparr>actionId = OpenFiles, target = Some (mFile data), files = [Some (mFile data)]\<rparr> st
         else Returned st)
      else if isSelectable (Some (mFile data)) then
        (if mCtrlKey data then
           Returned ((dispatch (ToggleSelection (file_id (mFile data)) False) st)
                       \<lparr>lastClickDisplayIndexRef := Some (mFileDisplayIndex data)\<rparr>)
         else if mShiftKey data then
           (case lastClickDisplayIndexRef st of
              Some prior \<Rightarrow>
                (let (rangeStart, rangeEnd) =
                       (if prior > mFileDisplayIndex data then (mFileDisplayIndex data, prior)
                        else (prior, mFileDisplayIndex data))
                 in Returned (dispatch (SelectRange rangeStart rangeEnd) st))
            | None \<Rightarrow>
                Returned ((dispatch (ToggleSelection (file_id (mFile data)) False) st)
                            \<lparr>lastClickDisplayIndexRef := Some (mFileDisplayIndex data)\<rparr>))
         else
           Returned ((dispatch (ToggleSelection (file_id (mFile data)) True) st)
                       \<lparr>lastClickDisplayIndexRef := Some (mFileDisplayIndex data)\<rparr>))
      else
        Returned ((if \<not> mCtrlKey data then dispatch ClearSelection st else st)
                    \<lparr>lastClickDisplayIndexRef := Some (mFileDisplayIndex data)\<rparr>))"

definition keyboardClickFileHandler ::
  "FileActionDispatcher \<Rightarrow> SpecialFileKeyboardClickAction \<Rightarrow> InstanceState \<Rightarrow> outcome" where
  "keyboardClickFileHandler h data st =
     (let st1 = st\<lparr>lastClickDisplayIndexRef := Some (kFileDisplayIndex data)\<rparr>
      in if enterKey data then
           (if selectionSizeRef st1 = 0 then
              dispatchFileAction h
                \<lparr>actionId = OpenFiles, target = Some (kFile data), files = [Some (kFile data)]\<rparr> st1
            else Returned st1)
         else if spaceKey data \<and> isSelectable (Some (kFile data)) then
           Returned (dispatch (ToggleSelection (file_id (kFile data)) (kCtrlKey data)) st1)
         else Returned st1)"

definition openParentFolderHandler :: "FileActionDispatcher \<Rightarrow> InstanceState \<Rightarrow> outcome" where
  "openParentFolderHandler h st =
     (if isOpenable (parentFolderRef st) then
        dispatchFileAction h
          \<lparr>actionId = OpenFiles, target = parentFolderRef st, files = [parentFolderRef st]\<rparr> st
      else Returned (logCall WarnParentNotOpenable st))"

definition openFolderChainFolderHandler ::
  "FileActionDispatcher \<Rightarrow> FileData \<Rightarrow> InstanceState \<Rightarrow> outcome" where
  "openFolderChainFolderHandler h file st =
     dispatchFileAction h \<lparr>actionId = OpenFiles, target = Some file, files = [Some file]\<rparr> st"

text \<open>
  On a drag start the source builds the action \<open>reduxActions.selectFiles(...)\<close> as an
  expression statement and does not pass it to \<open>dispatch\<close>: the value is dropped.
\<close>

definition dragNDropStartHandler ::
  "SpecialDragNDropStartAction \<Rightarrow> InstanceState \<Rightarrow> outcome" where
  "dragNDropStartHandler data st =
     (let file = sDragSource data
      in if \<not> getIsFileSelected (store st) file then
           (let st1 = dispatch ClearSelection st
            in if isSelectable (Some file) then
                 (let droppedValue = SelectFiles [file_id file] True in Returned st1)
               else Returned st1)
         else Returned st)"

definition dragNDropEndHandler ::
  "FileActionDispatcher \<Rightarrow> SpecialDragNDropEndAction \<Rightarrow> InstanceState \<Rightarrow> outcome" where
  "dragNDropEndHandler h data st =
     (if getIsFileSelected (store st) (dropTarget data) then Returned st
      else
        (let selectedFiles = getSelectedFiles (store st) [isDraggable];
             droppedFiles = (if length selectedFiles > 0 then map Some selectedFiles
                             else [Some (dragSource data)])
         in dispatchFileAction h
              \<lparr>actionId = (if dropEffect data = ''copy'' then DuplicateFilesTo else MoveFilesTo),
               target = Some (dropTarget data), files = droppedFiles\<rparr> st))"

text \<open>
  What \<open>handler(actionData)\<close> does when \<open>handler\<close> is the value the handler map inherits
  under the name of a member of \<open>Object.prototype\<close>: the call returns or throws and touches
  nothing of the instance.
\<close>

definition inheritedMemberHandler :: "string \<Rightarrow> InstanceState \<Rightarrow> outcome" where
  "inheritedMemberHandler member st =
     (case objectPrototypeCall member of None \<Rightarrow> Returned st | Some error \<Rightarrow> Threw error st)"

text \<open>
  \<open>specialActionHandlerMap[actionId]\<close>: the value found for the action id of the data,
  already applied to the data it will be called with; \<open>None\<close> is \<open>undefined\<close>. The map is an
  object literal with six own keys, so an action id that is none of them still finds a
  truthy value when it is the name of a member of \<open>Object.prototype\<close>.
\<close>

fun specialActionHandlerMap ::
  "FileActionDispatcher \<Rightarrow> SpecialActionData \<Rightarrow> (InstanceState \<Rightarrow> outcome) option" where
  "specialActionHandlerMap h (MouseClickFile data) = Some (mouseClickFileHandler h data)"
| "specialActionHandlerMap h (KeyboardClickFile data) = Some (keyboardClickFileHandler h data)"
| "specialActionHandlerMap h OpenParentFolder = Some (openParentFolderHandler h)"
| "specialActionHandlerMap h (OpenFolderChainFolder file) = Some (openFolderChainFolderHandler h file)"
| "specialActionHandlerMap h (DragNDropStart data) = Some (dragNDropStartHandler data)"
| "specialActionHandlerMap h (DragNDropEnd data) = Some (dragNDropEndHandler h data)"
| "specialActionHandlerMap h (UnhandledAction name) =
     (if name \<in> set objectPrototypeMembers then Some (inheritedMemberHandler name)
      else None)"

text \<open>
  \<open>dispatchSpecialAction\<close> of \<open>useSpecialActionDispatcher\<close>: the debug log, the lookup, the
  call inside \<open>try\<close>, and the two error logs.
\<close>

definition dispatchSpecialAction ::
  "FileActionDispatcher \<Rightarrow> SpecialActionData \<Rightarrow> InstanceState \<Rightarrow> outcome" where
  "dispatchSpecialAction h actionData st =
     (let st0 = logCall (DebugRequest actionData) st
      in case specialActionHandlerMap h actionData of
           Some handler \<Rightarrow>
             (case handler st0 of
                Returned st1 \<Rightarrow> Returned st1
              | Threw error st1 \<Rightarrow> Returned (logCall (ErrorHandlerThrew actionData error) st1))
         | None \<Rightarrow> Returned (logCall (ErrorNoHandler actionData) st0))"

text \<open>
  A sequence of independent calls of the entry point, one after the other: an exception
  leaving one call would end the sequence there.
\<close>

fun dispatchSpecialActions ::
  "FileActionDispatcher \<Rightarrow> SpecialActionData list \<Rightarrow> InstanceState \<Rightarrow> outcome" where
  "dispatchSpecialActions h [] st = Returned st"
| "dispatchSpecialActions h (a # as) st =
     (case dispatchSpecialAction h a st of
        Returned st1 \<Rightarrow> dispatchSpecialActions h as st1
      | Threw error st1 \<Rightarrow> Threw error st1)"

text \<open>
  A call of \<open>dispatchSpecialAction\<close> whose argument may be \<open>null\<close> or \<open>undefined\<close> (\<open>None\<close>):
  the debug log of line 42 is written, then the destructuring of line 43, which is outside
  the \<open>try\<close>, throws a \<open>TypeError\<close>. On an object the call is the function above.
\<close>

definition dispatchSpecialActionCall ::
  "FileActionDispatcher \<Rightarrow> SpecialActionData option \<Rightarrow> InstanceState \<Rightarrow> outcome" where
  "dispatchSpecialActionCall h argument st =
     (case argument of
        None \<Rightarrow> Threw ''TypeError'' (logCall DebugRequestNullish st)
      | Some actionData \<Rightarrow> dispatchSpecialAction h actionData st)"

section \<open>The action registry\<close>

text \<open>
  An action definition, with the fields the sources read (\<open>action.id\<close>, here
  \<open>action_id\<close>, \<open>action.requiresSelection\<close> and \<open>action.name\<close>).
\<close>

record FileAction =
  action_id :: string
  requiresSelection :: bool
  name :: string

text \<open>
  The effect of \<open>useFileActions\<close> that builds \<open>fileActionMap\<close>: it starts from the object
  literal \<open>{}\<close> and runs \<open>fileActionMap[action.id] = action\<close> for the actions in list order.
\<close>

fun fileActionMapLoop ::
  "FileAction jsObject \<Rightarrow> FileAction list \<Rightarrow> FileAction jsObject" where
  "fileActionMapLoop fileActionMap [] = fileActionMap"
| "fileActionMapLoop fileActionMap (action # rest) =
     fileActionMapLoop (jsSet fileActionMap (action_id action) action) rest"

definition fileActionMapOf :: "FileAction list \<Rightarrow> FileAction jsObject" where
  "fileActionMapOf fileActions = fileActionMapLoop emptyObject fileActions"

text \<open>The state an outcome ends in, whether the call returned or threw.\<close>

fun stateOf :: "outcome \<Rightarrow> InstanceState" where
  "stateOf (Returned st) = st"
| "stateOf (Threw error st) = st"

section \<open>Example inputs\<close>

text \<open>
  The scenario used for concrete evaluation: four files \<open>A\<close>, \<open>B\<close>, \<open>C\<close>, \<open>D\<close> at the
  display indices 0 to 3, a folder \<open>E\<close> outside the sequence, and a file \<open>L\<close> that is
  neither selectable nor openable nor draggable.
\<close>

definition fileA :: FileData where
  "fileA = \<lparr>file_id = ''A'', selectable = True, openable = True, draggable = True\<rparr>"

definition fileB :: FileData where
  "fileB = \<lparr>file_id = ''B'', selectable = True, openable = True, draggable = True\<rparr>"

definition fileC :: FileData where
  "fileC = \<lparr>file_id = ''C'', selectable = True, openable = True, draggable = False\<rparr>"

definition fileD :: FileData where
  "fileD = \<lparr>file_id = ''D'', selectable = True, openable = True, draggable = True\<rparr>"

definition folderE :: FileData where
  "folderE = \<lparr>file_id = ''E'', selectable = True, openable = True, draggable = True\<rparr>"

definition fileL :: FileData where
  "fileL = \<lparr>file_id = ''L'', selectable = False, openable = False, draggable = False\<rparr>"

definition exampleInstance :: "string set \<Rightarrow> nat option \<Rightarrow> FileData option \<Rightarrow> nat \<Rightarrow> InstanceState" where
  "exampleInstance selected anchor parent selSize =
     \<lparr>store = \<lparr>rawFiles = [Some fileA, Some fileB, Some fileC, Some fileD], selection = selected\<rparr>,
      lastClickDisplayIndexRef = anchor,
      parentFolderRef = parent,
      selectionSizeRef = selSize,
      reduxDispatched = [],
      fileActionsDispatched = [],
      logger = []\<rparr>"

text \<open>A host callback that returns on every action, and one that throws when the target is \<open>A\<close>.\<close>

definition quietHost :: FileActionDispatcher where
  "quietHost a = None"

definition throwingHost :: FileActionDispatcher where
  "throwingHost a = (if target a = Some fileA then Some ''host error'' else None)"

definition mouseClick :: "FileData \<Rightarrow> nat \<Rightarrow> bool \<Rightarrow> bool \<Rightarrow> string \<Rightarrow> SpecialFileMouseClickAction" where
  "mouseClick f i ctrl shift kind =
     \<lparr>mFile = f, mFileDisplayIndex = i, mCtrlKey = ctrl, mShiftKey = shift, clickType = kind\<rparr>"

section \<open>Auxiliary facts\<close>

subsection \<open>Fields after a dispatch and after a logger call\<close>

lemma dispatch_fields:
  "store (dispatch a st) = rootReducer (store st) a"
  "reduxDispatched (dispatch a st) = reduxDispatched st @ [a]"
  "lastClickDisplayIndexRef (dispatch a st) = lastClickDisplayIndexRef st"
  "fileActionsDispatched (dispatch a st) = fileActionsDispatched st"
  "logger (dispatch a st) = logger st"
  by (simp_all add: dispatch_def)

lemma logCall_fields:
  "store (logCall e st) = store st"
  "reduxDispatched (logCall e st) = reduxDispatched st"
  "lastClickDisplayIndexRef (logCall e st) = lastClickDisplayIndexRef st"
  "fileActionsDispatched (logCall e st) = fileActionsDispatched st"
  "logger (logCall e st) = logger st @ [e]"
  by (simp_all add: logCall_def)

subsection \<open>The range selected by the store\<close>

lemma map_filter_set:
  "set (List.map_filter (\<lambda>f. f) xs) = {f. Some f \<in> set xs}"
  by (induction xs) (auto simp: List.map_filter_simps split: option.splits)

lemma range_slice_member:
  "x \<in> set (take (Suc hi - lo) (drop lo xs)) \<longleftrightarrow>
     (\<exists>k. lo \<le> k \<and> k \<le> hi \<and> k < length xs \<and> xs ! k = x)"
proof
  assume "x \<in> set (take (Suc hi - lo) (drop lo xs))"
  then obtain j where j: "j < length (take (Suc hi - lo) (drop lo xs))"
      and x: "take (Suc hi - lo) (drop lo xs) ! j = x"
    by (auto simp: in_set_conv_nth)
  from j have "j < Suc hi - lo" and "lo + j < length xs" by auto
  with x have "lo \<le> lo + j \<and> lo + j \<le> hi \<and> lo + j < length xs \<and> xs ! (lo + j) = x"
    by auto
  then show "\<exists>k. lo \<le> k \<and> k \<le> hi \<and> k < length xs \<and> xs ! k = x" by blast
next
  assume "\<exists>k. lo \<le> k \<and> k \<le> hi \<and> k < length xs \<and> xs ! k = x"
  then obtain k where k: "lo \<le> k" "k \<le> hi" "k < length xs" "xs ! k = x" by blast
  then have "k - lo < length (take (Suc hi - lo) (drop lo xs))" by auto
  moreover from k have "take (Suc hi - lo) (drop lo xs) ! (k - lo) = x" by auto
  ultimately show "x \<in> set (take (Suc hi - lo) (drop lo xs))"
    by (auto simp: in_set_conv_nth)
qed

lemma selectRange_selection:
  "selection (rootReducer s (SelectRange a b)) =
     {file_id f | f k. min a b \<le> k \<and> k \<le> max a b \<and> k < length (rawFiles s) \<and> rawFiles s ! k = Some f}"
proof -
  have "set (List.map_filter (\<lambda>f. f) (take (Suc (max a b) - min a b) (drop (min a b) (rawFiles s))))
        = {f. \<exists>k. min a b \<le> k \<and> k \<le> max a b \<and> k < length (rawFiles s) \<and> rawFiles s ! k = Some f}"
    by (simp add: map_filter_set range_slice_member)
  then show ?thesis
    by (auto simp: Let_def)
qed

subsection \<open>One shift-click with an anchor\<close>

lemma shift_click_range_step:
  assumes "clickType data \<noteq> ''double''" and "isSelectable (Some (mFile data))"
    and "\<not> mCtrlKey data" and "mShiftKey data"
    and "lastClickDisplayIndexRef st = Some prior"
  shows "dispatchSpecialAction h (MouseClickFile data) st =
           Returned (dispatch (SelectRange (min prior (mFileDisplayIndex data))
                                           (max prior (mFileDisplayIndex data)))
                       (logCall (DebugRequest (MouseClickFile data)) st))"
  using assms
  by (simp add: dispatchSpecialAction_def mouseClickFileHandler_def logCall_def Let_def min_def max_def)

subsection \<open>The entry point returns\<close>

lemma dispatchSpecialAction_returns:
  "\<exists>st'. dispatchSpecialAction h actionData st = Returned st'"
  by (simp add: dispatchSpecialAction_def Let_def split: option.splits outcome.splits)

lemma dispatchSpecialActions_returns:
  "\<exists>st'. dispatchSpecialActions h actions st = Returned st'"
proof (induction actions arbitrary: st)
  case Nil
  show ?case by simp
next
  case (Cons a actions)
  obtain st1 where "dispatchSpecialAction h a st = Returned st1"
    using dispatchSpecialAction_returns by blast
  with Cons.IH [of st1] show ?case by simp
qed

subsection \<open>The example inputs\<close>

lemmas example_defs = exampleInstance_def fileA_def fileB_def fileC_def fileD_def folderE_def
  fileL_def quietHost_def throwingHost_def mouseClick_def

lemma exampleInstance_fields:
  "selection (store (exampleInstance sel anchor parent n)) = sel"
  "rawFiles (store (exampleInstance sel anchor parent n)) = [Some fileA, Some fileB, Some fileC, Some fileD]"
  "lastClickDisplayIndexRef (exampleInstance sel anchor parent n) = anchor"
  "parentFolderRef (exampleInstance sel anchor parent n) = parent"
  "selectionSizeRef (exampleInstance sel anchor parent n) = n"
  "reduxDispatched (exampleInstance sel anchor parent n) = []"
  "fileActionsDispatched (exampleInstance sel anchor parent n) = []"
  "logger (exampleInstance sel anchor parent n) = []"
  by (simp_all add: exampleInstance_def)

lemma example_presentFiles:
  "presentFiles (store (exampleInstance sel anchor parent n)) = [fileA, fileB, fileC, fileD]"
  by (simp add: presentFiles_def exampleInstance_def List.map_filter_simps)

section \<open>Properties of the special-action handlers\<close>

text \<open>
  C1. On a drag start whose drag source is already selected the handler leaves the state as
  it is. When the drag source is not selected the handler dispatches \<open>clearSelection\<close> and
  nothing else: the \<open>selectFiles\<close> action it builds for a selectable file is never
  dispatched, so the selection ends empty and is not the singleton of the dragged file.
\<close>

theorem drag_start_clears_without_selecting:
  "dragNDropStartHandler data st =
     (if getIsFileSelected (store st) (sDragSource data) then Returned st
      else Returned (dispatch ClearSelection st))
   \<and> (\<exists>st'. dispatchSpecialAction h (DragNDropStart data) st = Returned st'
          \<and> selection (store st') =
                (if getIsFileSelected (store st) (sDragSource data) then selection (store st) else {})
          \<and> reduxDispatched st' =
                reduxDispatched st @
                  (if getIsFileSelected (store st) (sDragSource data) then [] else [ClearSelection]))"
  by (simp add: dispatchSpecialAction_def dragNDropStartHandler_def dispatch_def logCall_def Let_def)

theorem drag_start_clears_without_selecting_witness:
  "\<not> getIsFileSelected (store (exampleInstance {''A''} None None 1)) fileB
   \<and> isSelectable (Some fileB)
   \<and> (\<exists>st'. dispatchSpecialAction quietHost (DragNDropStart \<lparr>sDragSource = fileB\<rparr>)
                 (exampleInstance {''A''} None None 1) = Returned st'
          \<and> selection (store st') = {}
          \<and> selection (store st') \<noteq> {file_id fileB}
          \<and> reduxDispatched st' = [ClearSelection])"
  using drag_start_clears_without_selecting
    [of "\<lparr>sDragSource = fileB\<rparr>" "exampleInstance {''A''} None None 1" quietHost]
  by (simp add: getIsFileSelected_def isSelectable_def exampleInstance_def fileB_def) blast

text \<open>
  C2. On a drag end whose drop target is selected, nothing is dispatched and the state is
  unchanged. Otherwise exactly one action is dispatched: Duplicate when the drop effect is
  \<open>copy\<close> and Move otherwise, with the drop target as target, and as files the selected
  draggable files when there are any and the single drag source otherwise.
\<close>

theorem drag_end_dispatch:
  fixes data :: SpecialDragNDropEndAction and st :: InstanceState
  defines "selected \<equiv> filter (\<lambda>f. file_id f \<in> selection (store st) \<and> draggable f)
                              (presentFiles (store st))"
  defines "action \<equiv> \<lparr>actionId = (if dropEffect data = ''copy'' then DuplicateFilesTo else MoveFilesTo),
                        target = Some (dropTarget data),
                        files = (if selected \<noteq> [] then map Some selected else [Some (dragSource data)])\<rparr>"
  shows "(if getIsFileSelected (store st) (dropTarget data)
          then dragNDropEndHandler h data st = Returned st
          else fileActionsDispatched (stateOf (dragNDropEndHandler h data st)) =
                 fileActionsDispatched st @ [action])
     \<and> (\<exists>st'. dispatchSpecialAction h (DragNDropEnd data) st = Returned st'
            \<and> fileActionsDispatched st' =
                  fileActionsDispatched st @
                    (if getIsFileSelected (store st) (dropTarget data) then [] else [action])
            \<and> store st' = store st
            \<and> reduxDispatched st' = reduxDispatched st
            \<and> lastClickDisplayIndexRef st' = lastClickDisplayIndexRef st)"
  unfolding selected_def action_def
  by (simp add: dispatchSpecialAction_def dragNDropEndHandler_def dispatchFileAction_def
      getSelectedFiles_def isDraggable_def logCall_def Let_def split: option.splits)

theorem drag_end_dispatch_witness:
  "(\<exists>st'. dispatchSpecialAction quietHost
            (DragNDropEnd \<lparr>dragSource = fileB, dropTarget = folderE, dropEffect = ''move''\<rparr>)
            (exampleInstance {''A'', ''B'', ''C''} (Some 0) None 3) = Returned st'
        \<and> fileActionsDispatched st' =
              [\<lparr>actionId = MoveFilesTo, target = Some folderE, files = [Some fileA, Some fileB]\<rparr>])
   \<and> (\<exists>st'. dispatchSpecialAction quietHost
            (DragNDropEnd \<lparr>dragSource = fileD, dropTarget = folderE, dropEffect = ''copy''\<rparr>)
            (exampleInstance {} (Some 0) None 0) = Returned st'
        \<and> fileActionsDispatched st' =
              [\<lparr>actionId = DuplicateFilesTo, target = Some folderE, files = [Some fileD]\<rparr>])
   \<and> dragNDropEndHandler quietHost \<lparr>dragSource = fileB, dropTarget = fileC, dropEffect = ''move''\<rparr>
            (exampleInstance {''A'', ''B'', ''C''} (Some 0) None 3)
       = Returned (exampleInstance {''A'', ''B'', ''C''} (Some 0) None 3)"
proof -
  let ?st = "exampleInstance {''A'', ''B'', ''C''} (Some 0) None 3"
  let ?move = "\<lparr>dragSource = fileB, dropTarget = folderE, dropEffect = ''move''\<rparr>"
  let ?copy = "\<lparr>dragSource = fileD, dropTarget = folderE, dropEffect = ''copy''\<rparr>"
  let ?self = "\<lparr>dragSource = fileB, dropTarget = fileC, dropEffect = ''move''\<rparr>"
  have sel: "selection (store (exampleInstance s a p n)) = s"
    and acts: "fileActionsDispatched (exampleInstance s a p n) = []" for s a p n
    by (simp_all add: exampleInstance_def)
  have ids: "file_id fileA = ''A''" "file_id fileB = ''B''" "file_id fileC = ''C''"
    "file_id fileD = ''D''" "file_id folderE = ''E''"
    "draggable fileA" "draggable fileB" "\<not> draggable fileC" "draggable fileD"
    by (simp_all add: example_defs)
  have "\<exists>st'. dispatchSpecialAction quietHost (DragNDropEnd ?move) ?st = Returned st'
        \<and> fileActionsDispatched st' =
              [\<lparr>actionId = MoveFilesTo, target = Some folderE, files = [Some fileA, Some fileB]\<rparr>]"
    using drag_end_dispatch [of ?st ?move quietHost]
    by (simp add: example_presentFiles getIsFileSelected_def sel acts ids) blast
  moreover
  have "\<exists>st'. dispatchSpecialAction quietHost (DragNDropEnd ?copy) (exampleInstance {} (Some 0) None 0)
            = Returned st'
        \<and> fileActionsDispatched st' =
              [\<lparr>actionId = DuplicateFilesTo, target = Some folderE, files = [Some fileD]\<rparr>]"
    using drag_end_dispatch [of "exampleInstance {} (Some 0) None 0" ?copy quietHost]
    by (simp add: example_presentFiles getIsFileSelected_def sel acts ids) blast
  moreover
  have "dragNDropEndHandler quietHost ?self ?st = Returned ?st"
    using drag_end_dispatch [of ?st ?self quietHost]
    by (simp add: getIsFileSelected_def sel ids)
  ultimately show ?thesis by blast
qed

text \<open>
  C3. A double click on an openable file dispatches exactly one Open action whose target is
  the clicked file and whose files are the clicked file alone, whatever is selected; on a
  file that is not openable it dispatches nothing. In both cases the store (and with it the
  selection) and the last-click index stay as they were.
\<close>

theorem double_click_opens_clicked_file:
  assumes "clickType data = ''double''"
  shows "\<exists>st'. dispatchSpecialAction h (MouseClickFile data) st = Returned st'
           \<and> fileActionsDispatched st' = fileActionsDispatched st @
                (if isOpenable (Some (mFile data))
                 then [\<lparr>actionId = OpenFiles, target = Some (mFile data), files = [Some (mFile data)]\<rparr>]
                 else [])
           \<and> store st' = store st
           \<and> reduxDispatched st' = reduxDispatched st
           \<and> lastClickDisplayIndexRef st' = lastClickDisplayIndexRef st"
  using assms
  by (simp add: dispatchSpecialAction_def mouseClickFileHandler_def dispatchFileAction_def
      logCall_def Let_def split: option.splits)

theorem double_click_opens_clicked_file_witness:
  "clickType (mouseClick fileD 3 False False ''double'') = ''double''
   \<and> (\<exists>st'. dispatchSpecialAction quietHost (MouseClickFile (mouseClick fileD 3 False False ''double''))
                 (exampleInstance {''A'', ''B'', ''C''} (Some 1) None 3) = Returned st'
          \<and> fileActionsDispatched st' = [\<lparr>actionId = OpenFiles, target = Some fileD, files = [Some fileD]\<rparr>]
          \<and> selection (store st') = {''A'', ''B'', ''C''}
          \<and> lastClickDisplayIndexRef st' = Some 1)"
  using double_click_opens_clicked_file
    [of "mouseClick fileD 3 False False ''double''" quietHost "exampleInstance {''A'', ''B'', ''C''} (Some 1) None 3"]
  by (auto simp: example_defs isOpenable_def)

text \<open>
  C4. A single click with shift (and without ctrl) on a selectable file, when a last-click
  index \<open>prior\<close> exists, dispatches \<open>selectRange\<close> from the smaller to the larger of \<open>prior\<close>
  and the click's display index, which selects the files at the display indices of that
  interval, and leaves the last-click index at \<open>prior\<close>: a following shift-click ranges
  from \<open>prior\<close> again.
\<close>

theorem shift_click_selects_range_from_anchor:
  assumes "clickType data \<noteq> ''double''" and "isSelectable (Some (mFile data))"
    and "\<not> mCtrlKey data" and "mShiftKey data"
    and "lastClickDisplayIndexRef st = Some prior"
    and "clickType next \<noteq> ''double''" and "isSelectable (Some (mFile next))"
    and "\<not> mCtrlKey next" and "mShiftKey next"
  shows "\<exists>st'. dispatchSpecialAction h (MouseClickFile data) st = Returned st'
     \<and> reduxDispatched st' = reduxDispatched st @
          [SelectRange (min prior (mFileDisplayIndex data)) (max prior (mFileDisplayIndex data))]
     \<and> selection (store st') =
          {file_id f | f k. min prior (mFileDisplayIndex data) \<le> k \<and> k \<le> max prior (mFileDisplayIndex data)
                          \<and> k < length (rawFiles (store st)) \<and> rawFiles (store st) ! k = Some f}
     \<and> lastClickDisplayIndexRef st' = Some prior
     \<and> (\<exists>st''. dispatchSpecialAction h (MouseClickFile next) st' = Returned st''
           \<and> reduxDispatched st'' = reduxDispatched st' @
                [SelectRange (min prior (mFileDisplayIndex next)) (max prior (mFileDisplayIndex next))]
           \<and> lastClickDisplayIndexRef st'' = Some prior)"
proof -
  let ?i = "mFileDisplayIndex data"
  let ?a = "SelectRange (min prior ?i) (max prior ?i)"
  let ?st' = "dispatch ?a (logCall (DebugRequest (MouseClickFile data)) st)"
  have run: "dispatchSpecialAction h (MouseClickFile data) st = Returned ?st'"
    using assms(1-5) by (rule shift_click_range_step)
  have anchor: "lastClickDisplayIndexRef ?st' = Some prior"
    using assms(5) by (simp add: dispatch_fields logCall_fields)
  have sel: "selection (store ?st') =
          {file_id f | f k. min prior ?i \<le> k \<and> k \<le> max prior ?i
                          \<and> k < length (rawFiles (store st)) \<and> rawFiles (store st) ! k = Some f}"
    using selectRange_selection [of "store st" "min prior ?i" "max prior ?i"]
    by (simp add: dispatch_fields logCall_fields)
  have log: "reduxDispatched ?st' = reduxDispatched st @ [?a]"
    by (simp add: dispatch_fields logCall_fields)
  let ?j = "mFileDisplayIndex next"
  let ?b = "SelectRange (min prior ?j) (max prior ?j)"
  let ?st'' = "dispatch ?b (logCall (DebugRequest (MouseClickFile next)) ?st')"
  have run2: "dispatchSpecialAction h (MouseClickFile next) ?st' = Returned ?st''"
    using assms(6-9) anchor by (rule shift_click_range_step)
  have log2: "reduxDispatched ?st'' = reduxDispatched ?st' @ [?b]"
    by (simp add: dispatch_fields logCall_fields)
  have anchor2: "lastClickDisplayIndexRef ?st'' = Some prior"
    using anchor by (simp add: dispatch_fields logCall_fields)
  from run log sel anchor run2 log2 anchor2 show ?thesis by blast
qed

theorem shift_click_selects_range_from_anchor_witness:
  "clickType (mouseClick fileD 3 False True ''single'') \<noteq> ''double''
   \<and> isSelectable (Some (mFile (mouseClick fileD 3 False True ''single'')))
   \<and> \<not> mCtrlKey (mouseClick fileD 3 False True ''single'')
   \<and> mShiftKey (mouseClick fileD 3 False True ''single'')
   \<and> lastClickDisplayIndexRef (exampleInstance {''A''} (Some 0) None 1) = Some 0
   \<and> (\<exists>st'. dispatchSpecialAction quietHost (MouseClickFile (mouseClick fileD 3 False True ''single''))
                 (exampleInstance {''A''} (Some 0) None 1) = Returned st'
          \<and> reduxDispatched st' = [SelectRange 0 3]
          \<and> selection (store st') = {''A'', ''B'', ''C'', ''D''}
          \<and> lastClickDisplayIndexRef st' = Some 0
          \<and> (\<exists>st''. dispatchSpecialAction quietHost
                        (MouseClickFile (mouseClick fileB 2 False True ''single'')) st' = Returned st''
                 \<and> reduxDispatched st'' = [SelectRange 0 3, SelectRange 0 2]
                 \<and> lastClickDisplayIndexRef st'' = Some 0))"
proof -
  let ?data = "mouseClick fileD 3 False True ''single''"
  let ?next = "mouseClick fileB 2 False True ''single''"
  let ?st = "exampleInstance {''A''} (Some 0) None 1"
  have pre: "clickType ?data \<noteq> ''double''" "isSelectable (Some (mFile ?data))"
    "\<not> mCtrlKey ?data" "mShiftKey ?data" "lastClickDisplayIndexRef ?st = Some 0"
    by (simp_all add: mouseClick_def isSelectable_def fileD_def exampleInstance_def)
  have pre2: "clickType ?next \<noteq> ''double''" "isSelectable (Some (mFile ?next))"
    "\<not> mCtrlKey ?next" "mShiftKey ?next"
    by (simp_all add: mouseClick_def isSelectable_def fileB_def)
  have idx: "mFileDisplayIndex ?data = 3" "mFileDisplayIndex ?next = 2"
    by (simp_all add: mouseClick_def)
  have range: "selection (rootReducer (store ?st) (SelectRange 0 3)) = {''A'', ''B'', ''C'', ''D''}"
    by (simp add: exampleInstance_def List.map_filter_simps fileA_def fileB_def fileC_def fileD_def)
  note inst = shift_click_selects_range_from_anchor [OF pre pre2, of quietHost]
  from inst obtain st' st'' where
    ret: "dispatchSpecialAction quietHost (MouseClickFile ?data) ?st = Returned st'"
    and log: "reduxDispatched st' = reduxDispatched ?st @
          [SelectRange (min 0 (mFileDisplayIndex ?data)) (max 0 (mFileDisplayIndex ?data))]"
    and sel: "selection (store st') =
          {file_id f | f k. min 0 (mFileDisplayIndex ?data) \<le> k \<and> k \<le> max 0 (mFileDisplayIndex ?data)
                          \<and> k < length (rawFiles (store ?st)) \<and> rawFiles (store ?st) ! k = Some f}"
    and anchor: "lastClickDisplayIndexRef st' = Some 0"
    and ret2: "dispatchSpecialAction quietHost (MouseClickFile ?next) st' = Returned st''"
    and log2: "reduxDispatched st'' = reduxDispatched st' @
          [SelectRange (min 0 (mFileDisplayIndex ?next)) (max 0 (mFileDisplayIndex ?next))]"
    and anchor2: "lastClickDisplayIndexRef st'' = Some 0"
    by blast
  from log have log': "reduxDispatched st' = [SelectRange 0 3]"
    by (simp add: idx exampleInstance_fields)
  from log2 log' have log2': "reduxDispatched st'' = [SelectRange 0 3, SelectRange 0 2]"
    by (simp add: idx)
  from sel have sel': "selection (store st') = {''A'', ''B'', ''C'', ''D''}"
    using selectRange_selection [of "store ?st" 0 3] range by (simp add: idx)
  from pre ret log' sel' anchor ret2 log2' anchor2 show ?thesis by blast
qed

text \<open>
  C5. A single click with shift (and without ctrl) on a selectable file, when there is no
  last-click index, ends in the same state as a ctrl-click on that file from the same
  state: \<open>toggleSelection\<close> of the file, not exclusive, is dispatched, which flips the file's
  membership in the selection, and the last-click index becomes the click's display index.
\<close>

theorem shift_click_without_anchor_is_ctrl_click:
  assumes "clickType data \<noteq> ''double''" and "isSelectable (Some (mFile data))"
    and "\<not> mCtrlKey data" and "mShiftKey data"
    and "lastClickDisplayIndexRef st = None"
  shows "mouseClickFileHandler h data st = mouseClickFileHandler h (data\<lparr>mCtrlKey := True, mShiftKey := shift\<rparr>) st
     \<and> (\<exists>st'. mouseClickFileHandler h data st = Returned st'
           \<and> reduxDispatched st' = reduxDispatched st @ [ToggleSelection (file_id (mFile data)) False]
           \<and> selection (store st') =
                 (if file_id (mFile data) \<in> selection (store st)
                  then selection (store st) - {file_id (mFile data)}
                  else insert (file_id (mFile data)) (selection (store st)))
           \<and> lastClickDisplayIndexRef st' = Some (mFileDisplayIndex data))"
  using assms
  by (simp add: mouseClickFileHandler_def dispatch_def)

theorem shift_click_without_anchor_is_ctrl_click_witness:
  "clickType (mouseClick fileB 1 False True ''single'') \<noteq> ''double''
   \<and> isSelectable (Some (mFile (mouseClick fileB 1 False True ''single'')))
   \<and> \<not> mCtrlKey (mouseClick fileB 1 False True ''single'')
   \<and> mShiftKey (mouseClick fileB 1 False True ''single'')
   \<and> lastClickDisplayIndexRef (exampleInstance {''A''} None None 1) = None
   \<and> mouseClickFileHandler quietHost (mouseClick fileB 1 False True ''single'')
         (exampleInstance {''A''} None None 1)
       = mouseClickFileHandler quietHost (mouseClick fileB 1 True False ''single'')
         (exampleInstance {''A''} None None 1)
   \<and> (\<exists>st'. mouseClickFileHandler quietHost (mouseClick fileB 1 False True ''single'')
                 (exampleInstance {''A''} None None 1) = Returned st'
          \<and> selection (store st') = {''A'', ''B''}
          \<and> lastClickDisplayIndexRef st' = Some 1)"
proof -
  let ?data = "mouseClick fileB 1 False True ''single''"
  let ?st = "exampleInstance {''A''} None None 1"
  have pre: "clickType ?data \<noteq> ''double''" "isSelectable (Some (mFile ?data))"
    "\<not> mCtrlKey ?data" "mShiftKey ?data" "lastClickDisplayIndexRef ?st = None"
    by (simp_all add: mouseClick_def isSelectable_def fileB_def exampleInstance_def)
  have ctrl: "?data\<lparr>mCtrlKey := True, mShiftKey := False\<rparr> = mouseClick fileB 1 True False ''single''"
    by (simp add: mouseClick_def)
  have facts: "file_id (mFile ?data) = ''B''" "mFileDisplayIndex ?data = 1"
    "selection (store ?st) = {''A''}"
    by (simp_all add: mouseClick_def fileB_def exampleInstance_def)
  note inst = shift_click_without_anchor_is_ctrl_click [OF pre, of quietHost False]
  from inst have same: "mouseClickFileHandler quietHost ?data ?st
       = mouseClickFileHandler quietHost (mouseClick fileB 1 True False ''single'') ?st"
    unfolding ctrl by blast
  from inst obtain st' where ret: "mouseClickFileHandler quietHost ?data ?st = Returned st'"
    and sel: "selection (store st') =
                 (if file_id (mFile ?data) \<in> selection (store ?st)
                  then selection (store ?st) - {file_id (mFile ?data)}
                  else insert (file_id (mFile ?data)) (selection (store ?st)))"
    and anchor: "lastClickDisplayIndexRef st' = Some (mFileDisplayIndex ?data)"
    by blast
  from sel have sel': "selection (store st') = {''A'', ''B''}"
    unfolding facts by auto
  from anchor have anchor': "lastClickDisplayIndexRef st' = Some 1"
    unfolding facts .
  from pre same ret sel' anchor' show ?thesis by blast
qed

text \<open>
  C6. A keyboard click with Enter sets the last-click index to the row's display index; it
  dispatches exactly one Open action for the file, with the file as target and as the only
  element of files, when the selection size is zero, and no action otherwise.
\<close>

theorem keyboard_enter_opens_when_selection_empty:
  assumes "enterKey data"
  shows "\<exists>st'. dispatchSpecialAction h (KeyboardClickFile data) st = Returned st'
           \<and> fileActionsDispatched st' = fileActionsDispatched st @
                (if selectionSizeRef st = 0
                 then [\<lparr>actionId = OpenFiles, target = Some (kFile data), files = [Some (kFile data)]\<rparr>]
                 else [])
           \<and> store st' = store st
           \<and> lastClickDisplayIndexRef st' = Some (kFileDisplayIndex data)"
  using assms
  by (simp add: dispatchSpecialAction_def keyboardClickFileHandler_def dispatchFileAction_def
      logCall_def Let_def split: option.splits)

theorem keyboard_enter_opens_when_selection_empty_witness:
  "enterKey \<lparr>kFile = fileB, kFileDisplayIndex = 1, enterKey = True, spaceKey = False, kCtrlKey = False\<rparr>
   \<and> (\<exists>st'. dispatchSpecialAction quietHost
                 (KeyboardClickFile \<lparr>kFile = fileB, kFileDisplayIndex = 1, enterKey = True,
                                       spaceKey = False, kCtrlKey = False\<rparr>)
                 (exampleInstance {} None None 0) = Returned st'
          \<and> fileActionsDispatched st' = [\<lparr>actionId = OpenFiles, target = Some fileB, files = [Some fileB]\<rparr>]
          \<and> lastClickDisplayIndexRef st' = Some 1)
   \<and> (\<exists>st'. dispatchSpecialAction quietHost
                 (KeyboardClickFile \<lparr>kFile = fileB, kFileDisplayIndex = 1, enterKey = True,
                                       spaceKey = False, kCtrlKey = False\<rparr>)
                 (exampleInstance {''A'', ''C''} None None 2) = Returned st'
          \<and> fileActionsDispatched st' = []
          \<and> lastClickDisplayIndexRef st' = Some 1)"
  using keyboard_enter_opens_when_selection_empty
    [of "\<lparr>kFile = fileB, kFileDisplayIndex = 1, enterKey = True, spaceKey = False, kCtrlKey = False\<rparr>"
        quietHost "exampleInstance {} None None 0"]
    keyboard_enter_opens_when_selection_empty
    [of "\<lparr>kFile = fileB, kFileDisplayIndex = 1, enterKey = True, spaceKey = False, kCtrlKey = False\<rparr>"
        quietHost "exampleInstance {''A'', ''C''} None None 2"]
  by (auto simp: example_defs)

text \<open>
  C7. Called with an action data object, the entry point \<open>dispatchSpecialAction\<close> returns
  (with \<open>null\<close> or \<open>undefined\<close> the destructuring before the \<open>try\<close> throws). When the action
  id is neither a key of the handler map nor the name of a member of \<open>Object.prototype\<close>, it
  logs the request and an error and changes nothing else; when the handler throws, the
  exception is caught and logged as an error and the call returns; so of two calls in
  sequence the second is made and its handler runs on the state the first one left.
\<close>

theorem dispatchSpecialAction_never_throws:
  "dispatchSpecialActionCall h (Some actionData) st = dispatchSpecialAction h actionData st
   \<and> (\<exists>st'. dispatchSpecialAction h actionData st = Returned st')
   \<and> (\<forall>name. actionData = UnhandledAction name \<and> name \<notin> set objectPrototypeMembers \<longrightarrow>
        dispatchSpecialAction h actionData st =
          Returned (st\<lparr>logger := logger st @ [DebugRequest actionData, ErrorNoHandler actionData]\<rparr>))
   \<and> (\<forall>handler error st1.
         specialActionHandlerMap h actionData = Some handler
         \<and> handler (logCall (DebugRequest actionData) st) = Threw error st1 \<longrightarrow>
         dispatchSpecialAction h actionData st =
           Returned (st1\<lparr>logger := logger st1 @ [ErrorHandlerThrew actionData error]\<rparr>))
   \<and> dispatchSpecialActions h [actionData, following] st =
         dispatchSpecialAction h following (stateOf (dispatchSpecialAction h actionData st))
   \<and> (\<forall>handler. specialActionHandlerMap h following = Some handler \<longrightarrow>
         dispatchSpecialActions h [actionData, following] st =
           (case handler (logCall (DebugRequest following)
                            (stateOf (dispatchSpecialAction h actionData st))) of
              Returned st2 \<Rightarrow> Returned st2
            | Threw error st2 \<Rightarrow> Returned (logCall (ErrorHandlerThrew following error) st2)))
   \<and> (\<exists>st'. dispatchSpecialActions h actions st = Returned st')"
proof -
  have nullable: "dispatchSpecialActionCall h (Some actionData) st = dispatchSpecialAction h actionData st"
    by (simp add: dispatchSpecialActionCall_def)
  have returns: "\<And>a s. \<exists>st'. dispatchSpecialAction h a s = Returned st'"
    by (rule dispatchSpecialAction_returns)
  have all: "\<exists>st'. dispatchSpecialActions h actions st = Returned st'"
    by (rule dispatchSpecialActions_returns)
  have missing: "\<forall>name. actionData = UnhandledAction name \<and> name \<notin> set objectPrototypeMembers \<longrightarrow>
        dispatchSpecialAction h actionData st =
          Returned (st\<lparr>logger := logger st @ [DebugRequest actionData, ErrorNoHandler actionData]\<rparr>)"
    by (simp add: dispatchSpecialAction_def logCall_def Let_def)
  have caught: "\<forall>handler error st1.
         specialActionHandlerMap h actionData = Some handler
         \<and> handler (logCall (DebugRequest actionData) st) = Threw error st1 \<longrightarrow>
         dispatchSpecialAction h actionData st =
           Returned (st1\<lparr>logger := logger st1 @ [ErrorHandlerThrew actionData error]\<rparr>)"
    by (simp add: dispatchSpecialAction_def logCall_def Let_def)
  obtain st' where first: "dispatchSpecialAction h actionData st = Returned st'"
    using returns by blast
  obtain st'' where second: "dispatchSpecialAction h following st' = Returned st''"
    using returns by blast
  have seq: "dispatchSpecialActions h [actionData, following] st =
         dispatchSpecialAction h following (stateOf (dispatchSpecialAction h actionData st))"
    by (simp add: first second)
  have reached: "\<forall>handler. specialActionHandlerMap h following = Some handler \<longrightarrow>
         dispatchSpecialActions h [actionData, following] st =
           (case handler (logCall (DebugRequest following)
                            (stateOf (dispatchSpecialAction h actionData st))) of
              Returned st2 \<Rightarrow> Returned st2
            | Threw error st2 \<Rightarrow> Returned (logCall (ErrorHandlerThrew following error) st2))"
    unfolding seq by (simp add: dispatchSpecialAction_def Let_def)
  from nullable returns missing caught seq reached all show ?thesis by blast
qed

theorem dispatchSpecialAction_never_throws_witness:
  "''unknown'' \<notin> set objectPrototypeMembers
   \<and> dispatchSpecialAction throwingHost (UnhandledAction ''unknown'') (exampleInstance {''B''} (Some 2) None 2)
       = Returned ((exampleInstance {''B''} (Some 2) None 2)
                    \<lparr>logger := [DebugRequest (UnhandledAction ''unknown''),
                                ErrorNoHandler (UnhandledAction ''unknown'')]\<rparr>)
   \<and> (\<exists>handler st1.
         specialActionHandlerMap throwingHost (MouseClickFile (mouseClick fileA 0 False False ''double''))
           = Some handler
         \<and> handler (logCall (DebugRequest (MouseClickFile (mouseClick fileA 0 False False ''double'')))
                        (exampleInstance {''B''} (Some 2) None 2)) = Threw ''host error'' st1
         \<and> dispatchSpecialAction throwingHost (MouseClickFile (mouseClick fileA 0 False False ''double''))
               (exampleInstance {''B''} (Some 2) None 2)
             = Returned (st1\<lparr>logger := logger st1 @
                  [ErrorHandlerThrew (MouseClickFile (mouseClick fileA 0 False False ''double'')) ''host error'']\<rparr>))
   \<and> specialActionHandlerMap throwingHost (MouseClickFile (mouseClick fileD 3 False False ''double''))
       = Some (mouseClickFileHandler throwingHost (mouseClick fileD 3 False False ''double''))
   \<and> (\<exists>st'. dispatchSpecialActions throwingHost
                 [MouseClickFile (mouseClick fileA 0 False False ''double''),
                  MouseClickFile (mouseClick fileD 3 False False ''double'')]
                 (exampleInstance {''B''} (Some 2) None 2) = Returned st'
          \<and> fileActionsDispatched st' =
                [\<lparr>actionId = OpenFiles, target = Some fileA, files = [Some fileA]\<rparr>,
                 \<lparr>actionId = OpenFiles, target = Some fileD, files = [Some fileD]\<rparr>])"
proof -
  let ?st = "exampleInstance {''B''} (Some 2) None 2"
  let ?clickA = "mouseClick fileA 0 False False ''double''"
  let ?clickD = "mouseClick fileD 3 False False ''double''"
  let ?a = "MouseClickFile ?clickA"
  let ?d = "MouseClickFile ?clickD"
  let ?u = "UnhandledAction ''unknown''"
  have fresh: "''unknown'' \<notin> set objectPrototypeMembers"
    by (simp add: objectPrototypeMembers_def)
  from dispatchSpecialAction_never_throws
         [where h = throwingHost and actionData = ?u and st = ?st and following = ?d and actions = "[]"]
       fresh
  have missing: "dispatchSpecialAction throwingHost ?u ?st
       = Returned (?st\<lparr>logger := [DebugRequest ?u, ErrorNoHandler ?u]\<rparr>)"
    by (simp add: exampleInstance_fields)
  let ?st1 = "(logCall (DebugRequest ?a) ?st)
                \<lparr>fileActionsDispatched :=
                   [\<lparr>actionId = OpenFiles, target = Some fileA, files = [Some fileA]\<rparr>]\<rparr>"
  have some: "specialActionHandlerMap throwingHost ?a = Some (mouseClickFileHandler throwingHost ?clickA)"
    by simp
  have someD: "specialActionHandlerMap throwingHost ?d = Some (mouseClickFileHandler throwingHost ?clickD)"
    by simp
  have throws: "mouseClickFileHandler throwingHost ?clickA (logCall (DebugRequest ?a) ?st)
                  = Threw ''host error'' ?st1"
    by (simp add: mouseClickFileHandler_def dispatchFileAction_def throwingHost_def mouseClick_def
        isOpenable_def fileA_def logCall_def exampleInstance_def)
  note inst = dispatchSpecialAction_never_throws
    [where h = throwingHost and actionData = ?a and st = ?st and following = ?d and actions = "[?a, ?d]"]
  let ?st2 = "?st1\<lparr>logger := logger ?st1 @ [ErrorHandlerThrew ?a ''host error'']\<rparr>"
  from inst some throws
  have caught: "dispatchSpecialAction throwingHost ?a ?st = Returned ?st2"
    by blast
  have second: "mouseClickFileHandler throwingHost ?clickD (logCall (DebugRequest ?d) ?st2)
       = Returned ((logCall (DebugRequest ?d) ?st2)
           \<lparr>fileActionsDispatched :=
                   [\<lparr>actionId = OpenFiles, target = Some fileA, files = [Some fileA]\<rparr>,
                    \<lparr>actionId = OpenFiles, target = Some fileD, files = [Some fileD]\<rparr>]\<rparr>)"
    by (simp add: mouseClickFileHandler_def dispatchFileAction_def
        throwingHost_def mouseClick_def isOpenable_def fileA_def fileD_def logCall_def)
  from inst someD
  have "dispatchSpecialActions throwingHost [?a, ?d] ?st =
           (case mouseClickFileHandler throwingHost ?clickD
                   (logCall (DebugRequest ?d) (stateOf (dispatchSpecialAction throwingHost ?a ?st))) of
              Returned st2 \<Rightarrow> Returned st2
            | Threw error st2 \<Rightarrow> Returned (logCall (ErrorHandlerThrew ?d error) st2))"
    by blast
  with caught second
  have seq: "\<exists>st'. dispatchSpecialActions throwingHost [?a, ?d] ?st = Returned st'
          \<and> fileActionsDispatched st' =
                [\<lparr>actionId = OpenFiles, target = Some fileA, files = [Some fileA]\<rparr>,
                 \<lparr>actionId = OpenFiles, target = Some fileD, files = [Some fileD]\<rparr>]"
    by simp
  from fresh missing some throws caught someD seq show ?thesis by blast
qed

text \<open>
  The readings excluded above: under the action id \<open>toString\<close> the map finds the inherited
  function, which returns, so nothing but the request is logged; and a call with \<open>undefined\<close>
  throws.
\<close>

theorem dispatchSpecialAction_inherited_counterexample:
  "dispatchSpecialAction quietHost (UnhandledAction ''toString'') (exampleInstance {''B''} None None 2)
       = Returned ((exampleInstance {''B''} None None 2)
                     \<lparr>logger := [DebugRequest (UnhandledAction ''toString'')]\<rparr>)
   \<and> logLevel (DebugRequest (UnhandledAction ''toString'')) = LevelDebug
   \<and> dispatchSpecialActionCall quietHost None (exampleInstance {''B''} None None 2)
       = Threw ''TypeError'' ((exampleInstance {''B''} None None 2)\<lparr>logger := [DebugRequestNullish]\<rparr>)"
  by (simp add: dispatchSpecialAction_def dispatchSpecialActionCall_def inheritedMemberHandler_def
      objectPrototypeCall_def objectPrototypeMembers_def logCall_def exampleInstance_def)

text \<open>
  C8. An open-parent-folder request dispatches exactly one Open action with the parent
  folder as target and as the only element of files when the parent folder is openable;
  otherwise it logs a warning and nothing else changes: no action is dispatched, and the
  store and the last-click index stay as they were.
\<close>

theorem open_parent_folder_request:
  "\<exists>st'. dispatchSpecialAction h OpenParentFolder st = Returned st'
     \<and> (if isOpenable (parentFolderRef st)
         then fileActionsDispatched st' = fileActionsDispatched st @
                [\<lparr>actionId = OpenFiles, target = parentFolderRef st, files = [parentFolderRef st]\<rparr>]
         else st' = st\<lparr>logger := logger st @ [DebugRequest OpenParentFolder, WarnParentNotOpenable]\<rparr>)"
  by (simp add: dispatchSpecialAction_def openParentFolderHandler_def dispatchFileAction_def
      logCall_def Let_def split: option.splits)

theorem open_parent_folder_request_witness:
  "isOpenable (Some folderE) \<and> \<not> isOpenable (Some fileL) \<and> \<not> isOpenable None
   \<and> (\<exists>st'. dispatchSpecialAction quietHost OpenParentFolder (exampleInstance {''A''} (Some 2) (Some folderE) 1)
                = Returned st'
          \<and> fileActionsDispatched st' = [\<lparr>actionId = OpenFiles, target = Some folderE, files = [Some folderE]\<rparr>])
   \<and> (\<exists>st'. dispatchSpecialAction quietHost OpenParentFolder (exampleInstance {''A''} (Some 2) (Some fileL) 1)
                = Returned st'
          \<and> logger st' = [DebugRequest OpenParentFolder, WarnParentNotOpenable]
          \<and> fileActionsDispatched st' = []
          \<and> selection (store st') = {''A''}
          \<and> lastClickDisplayIndexRef st' = Some 2)"
  using open_parent_folder_request [of quietHost "exampleInstance {''A''} (Some 2) (Some folderE) 1"]
    open_parent_folder_request [of quietHost "exampleInstance {''A''} (Some 2) (Some fileL) 1"]
  by (auto simp: example_defs isOpenable_def)

section \<open>Properties of the action registry\<close>

lemma find_snoc:
  "find P (xs @ [x]) = (case find P xs of Some y \<Rightarrow> Some y | None \<Rightarrow> (if P x then Some x else None))"
  by (induction xs) auto

lemma find_rev_member:
  "(find P (rev xs) = None) = (\<forall>x \<in> set xs. \<not> P x)"
  by (auto simp: find_None_iff)

lemma find_absent_id:
  "k \<notin> action_id ` set acts \<Longrightarrow> find (\<lambda>a. action_id a = k) (rev acts) = None"
  by (auto simp: find_rev_member)

lemma fileActionMapLoop_own:
  "own (fileActionMapLoop m acts) k =
     (if k = ''__proto__'' then own m k
      else case find (\<lambda>a. action_id a = k) (rev acts) of Some a \<Rightarrow> Some a | None \<Rightarrow> own m k)"
  by (induction acts arbitrary: m) (auto simp: find_snoc jsSet_def split: option.splits)

lemma fileActionMapLoop_prototypeOf:
  "prototypeOf (fileActionMapLoop m acts) =
     (case find (\<lambda>a. action_id a = ''__proto__'') (rev acts) of
        Some a \<Rightarrow> Some a | None \<Rightarrow> prototypeOf m)"
  by (induction acts arbitrary: m) (auto simp: find_snoc jsSet_def split: option.splits)

lemma fileActionMapLoop_keys:
  "jsKeys (fileActionMapLoop m acts) = jsKeys m \<union> (action_id ` set acts - {''__proto__''})"
  by (induction acts arbitrary: m) (auto simp: jsKeys_def jsSet_def)

text \<open>
  C10. The registry is the left-to-right fold of \<open>fileActionMap[action.id] = action\<close> over
  the supplied list, on an object literal. Reading it at an identifier that occurs in the
  list gives the last action of the list that bears it; its keys are the identifiers of the
  list other than \<open>__proto__\<close>; and reading it at an identifier that does not occur gives
  \<open>undefined\<close>, provided the identifier is not the name of a member of \<open>Object.prototype\<close>
  and no action of the list has the identifier \<open>__proto__\<close>.
\<close>

theorem fileActionMap_last_wins:
  "(find (\<lambda>a. action_id a = k) (rev fileActions) = Some action \<longrightarrow>
      jsGet (fileActionMapOf fileActions) k = StoredValue action)
   \<and> jsKeys (fileActionMapOf fileActions) = action_id ` set fileActions - {''__proto__''}
   \<and> (k \<notin> action_id ` set fileActions \<and> k \<notin> set objectPrototypeMembers
        \<and> ''__proto__'' \<notin> action_id ` set fileActions \<longrightarrow>
      jsGet (fileActionMapOf fileActions) k = Undefined)"
proof -
  let ?m = "fileActionMapOf fileActions"
  have own: "own ?m k =
     (if k = ''__proto__'' then None else find (\<lambda>a. action_id a = k) (rev fileActions))"
    by (simp add: fileActionMapOf_def fileActionMapLoop_own emptyObject_def split: option.splits)
  have proto: "prototypeOf ?m = find (\<lambda>a. action_id a = ''__proto__'') (rev fileActions)"
    by (simp add: fileActionMapOf_def fileActionMapLoop_prototypeOf emptyObject_def
        split: option.splits)
  have stored: "find (\<lambda>a. action_id a = k) (rev fileActions) = Some action \<longrightarrow>
      jsGet ?m k = StoredValue action"
    by (simp add: jsGet_def own proto)
  have keys: "jsKeys ?m = action_id ` set fileActions - {''__proto__''}"
  proof -
    have "jsKeys (emptyObject :: FileAction jsObject) = {}"
      by (simp add: jsKeys_def emptyObject_def)
    then show ?thesis
      by (simp add: fileActionMapOf_def fileActionMapLoop_keys)
  qed
  have absent: "k \<notin> action_id ` set fileActions \<and> k \<notin> set objectPrototypeMembers
        \<and> ''__proto__'' \<notin> action_id ` set fileActions \<longrightarrow> jsGet ?m k = Undefined"
  proof (intro impI, elim conjE)
    assume k: "k \<notin> action_id ` set fileActions" and member: "k \<notin> set objectPrototypeMembers"
      and p: "''__proto__'' \<notin> action_id ` set fileActions"
    from k have nok: "find (\<lambda>a. action_id a = k) (rev fileActions) = None"
      by (rule find_absent_id)
    from p have nop: "find (\<lambda>a. action_id a = ''__proto__'') (rev fileActions) = None"
      by (rule find_absent_id)
    from member have notproto: "k \<noteq> ''__proto__''"
      by (auto simp: objectPrototypeMembers_def)
    show "jsGet ?m k = Undefined"
      using member notproto by (simp add: jsGet_def own proto nok nop)
  qed
  from stored keys absent show ?thesis by blast
qed

theorem fileActionMap_last_wins_witness:
  "find (\<lambda>a. action_id a = ''open'')
     (rev [\<lparr>action_id = ''open'', requiresSelection = True, name = ''first''\<rparr>,
           \<lparr>action_id = ''move'', requiresSelection = True, name = ''second''\<rparr>,
           \<lparr>action_id = ''open'', requiresSelection = False, name = ''third''\<rparr>])
     = Some \<lparr>action_id = ''open'', requiresSelection = False, name = ''third''\<rparr>
   \<and> jsGet (fileActionMapOf
        [\<lparr>action_id = ''open'', requiresSelection = True, name = ''first''\<rparr>,
         \<lparr>action_id = ''move'', requiresSelection = True, name = ''second''\<rparr>,
         \<lparr>action_id = ''open'', requiresSelection = False, name = ''third''\<rparr>]) ''open''
     = StoredValue \<lparr>action_id = ''open'', requiresSelection = False, name = ''third''\<rparr>
   \<and> jsKeys (fileActionMapOf
        [\<lparr>action_id = ''open'', requiresSelection = True, name = ''first''\<rparr>,
         \<lparr>action_id = ''move'', requiresSelection = True, name = ''second''\<rparr>,
         \<lparr>action_id = ''open'', requiresSelection = False, name = ''third''\<rparr>]) = {''open'', ''move''}
   \<and> ''copy'' \<notin> action_id ` set
        [\<lparr>action_id = ''open'', requiresSelection = True, name = ''first''\<rparr>,
         \<lparr>action_id = ''move'', requiresSelection = True, name = ''second''\<rparr>,
         \<lparr>action_id = ''open'', requiresSelection = False, name = ''third''\<rparr>]
   \<and> ''copy'' \<notin> set objectPrototypeMembers
   \<and> ''__proto__'' \<notin> action_id ` set
        [\<lparr>action_id = ''open'', requiresSelection = True, name = ''first''\<rparr>,
         \<lparr>action_id = ''move'', requiresSelection = True, name = ''second''\<rparr>,
         \<lparr>action_id = ''open'', requiresSelection = False, name = ''third''\<rparr>]
   \<and> jsGet (fileActionMapOf
        [\<lparr>action_id = ''open'', requiresSelection = True, name = ''first''\<rparr>,
         \<lparr>action_id = ''move'', requiresSelection = True, name = ''second''\<rparr>,
         \<lparr>action_id = ''open'', requiresSelection = False, name = ''third''\<rparr>]) ''copy'' = Undefined"
proof -
  let ?acts = "[\<lparr>action_id = ''open'', requiresSelection = True, name = ''first''\<rparr>,
         \<lparr>action_id = ''move'', requiresSelection = True, name = ''second''\<rparr>,
         \<lparr>action_id = ''open'', requiresSelection = False, name = ''third''\<rparr>]"
  let ?third = "\<lparr>action_id = ''open'', requiresSelection = False, name = ''third''\<rparr>"
  have last: "find (\<lambda>a. action_id a = ''open'') (rev ?acts) = Some ?third"
    by simp
  have ids: "action_id ` set ?acts = {''open'', ''move''}"
    by auto
  have fresh: "''copy'' \<notin> action_id ` set ?acts" "''copy'' \<notin> set objectPrototypeMembers"
    "''__proto__'' \<notin> action_id ` set ?acts"
    by (simp_all add: objectPrototypeMembers_def)
  from fileActionMap_last_wins [of "''open''" ?acts ?third] last
  have stored: "jsGet (fileActionMapOf ?acts) ''open'' = StoredValue ?third"
    by blast
  from fileActionMap_last_wins [of "''open''" ?acts ?third]
  have "jsKeys (fileActionMapOf ?acts) = action_id ` set ?acts - {''__proto__''}"
    by blast
  with ids have keys: "jsKeys (fileActionMapOf ?acts) = {''open'', ''move''}"
    by auto
  from fileActionMap_last_wins [of "''copy''" ?acts ?third] fresh
  have absent: "jsGet (fileActionMapOf ?acts) ''copy'' = Undefined"
    by blast
  from last stored keys fresh absent show ?thesis by blast
qed

text \<open>
  The readings excluded above: the registry of the empty list has a value under \<open>toString\<close>,
  and an action with the identifier \<open>__proto__\<close> leaves no key.
\<close>

theorem fileActionMap_inherits_counterexample:
  "''toString'' \<notin> action_id ` set ([] :: FileAction list)
   \<and> jsGet (fileActionMapOf []) ''toString'' = PrototypeMember ''toString''
   \<and> jsGet (fileActionMapOf []) ''toString'' \<noteq> Undefined
   \<and> action_id ` set [\<lparr>action_id = ''__proto__'', requiresSelection = False, name = ''odd''\<rparr>]
       = {''__proto__''}
   \<and> jsKeys (fileActionMapOf [\<lparr>action_id = ''__proto__'', requiresSelection = False, name = ''odd''\<rparr>])
       = {}"
  by (simp add: fileActionMapOf_def emptyObject_def jsGet_def jsSet_def jsKeys_def
      objectPrototypeMembers_def)

end
